theory Spec2Isabelle
  imports Main
begin

section \<open>Python values and exceptions\<close>

text \<open>
  The program of \<^verbatim>\<open>app.py\<close> moves JSON-shaped Python values between two
  SDKs. A float is kept as integer mantissa and binary exponent (or one of
  the non-finite values the JSON decoder can also produce); the program only
  ever tests it for truth. A dict is an association list in insertion order;
  a lookup takes the first binding of the key.
\<close>

datatype pyfloat = FNaN | FInf bool | FFinite int int

datatype pyval =
    PNone
  | PBool bool
  | PInt int
  | PFloat pyfloat
  | PStr string
  | PList "pyval list"
  | PDict "(string \<times> pyval) list"

text \<open>
  Every exception the program can meet derives from Python's \<^verbatim>\<open>Exception\<close>.
  \<open>LibraryError\<close> stands for whatever a library call raises (the date
  parser's \<^verbatim>\<open>ParserError\<close>, the provider client's \<^verbatim>\<open>HttpError\<close>, a transport
  error), carrying its message.
\<close>

datatype exn =
    JSONDecodeError string
  | KeyError string
  | TypeError string
  | AttributeError string
  | IndexError string
  | LibraryError string

definition quoted :: "string \<Rightarrow> string" where
  "quoted s = [CHR 0x27] @ s @ [CHR 0x27]"

text \<open>\<^verbatim>\<open>str(e)\<close>: a \<^verbatim>\<open>KeyError\<close> prints the repr of its key, the others their message.\<close>

fun str_exn :: "exn \<Rightarrow> string" where
  "str_exn (JSONDecodeError m) = m"
| "str_exn (KeyError k) = quoted k"
| "str_exn (TypeError m) = m"
| "str_exn (AttributeError m) = m"
| "str_exn (IndexError m) = m"
| "str_exn (LibraryError m) = m"

text \<open>Truth value of a Python object, as \<^verbatim>\<open>if attendees\<close> tests it.\<close>

fun truthy :: "pyval \<Rightarrow> bool" where
  "truthy PNone = False"
| "truthy (PBool b) = b"
| "truthy (PInt i) = (i \<noteq> 0)"
| "truthy (PFloat (FFinite m e)) = (m \<noteq> 0)"
| "truthy (PFloat f) = True"
| "truthy (PStr s) = (s \<noteq> [])"
| "truthy (PList xs) = (xs \<noteq> [])"
| "truthy (PDict kvs) = (kvs \<noteq> [])"

fun type_name :: "pyval \<Rightarrow> string" where
  "type_name PNone = ''NoneType''"
| "type_name (PBool b) = ''bool''"
| "type_name (PInt i) = ''int''"
| "type_name (PFloat f) = ''float''"
| "type_name (PStr s) = ''str''"
| "type_name (PList xs) = ''list''"
| "type_name (PDict kvs) = ''dict''"

text \<open>
  Iteration, as the list comprehension of \<^verbatim>\<open>create_event\<close> does it: a list
  yields its elements, a string its characters, a dict its keys; anything else
  is not iterable.
\<close>

fun py_iter :: "pyval \<Rightarrow> exn + pyval list" where
  "py_iter (PList xs) = Inr xs"
| "py_iter (PStr s) = Inr (map (\<lambda>c. PStr [c]) s)"
| "py_iter (PDict kvs) = Inr (map (\<lambda>kv. PStr (fst kv)) kvs)"
| "py_iter v = Inl (TypeError (quoted (type_name v) @ '' object is not iterable''))"

text \<open>
  \<^verbatim>\<open>obj[key]\<close> with a string key. The messages are those of Python 3.11 and
  later (before, subscripting a string said \<^verbatim>\<open>string indices must be integers\<close>).
\<close>

fun py_getitem :: "pyval \<Rightarrow> string \<Rightarrow> exn + pyval" where
  "py_getitem (PDict kvs) k = (case map_of kvs k of None \<Rightarrow> Inl (KeyError k) | Some v \<Rightarrow> Inr v)"
| "py_getitem (PList xs) k = Inl (TypeError ''list indices must be integers or slices, not str'')"
| "py_getitem (PStr s) k =
     Inl (TypeError (''string indices must be integers, not '' @ quoted ''str''))"
| "py_getitem v k = Inl (TypeError (quoted (type_name v) @ '' object is not subscriptable''))"

text \<open>\<^verbatim>\<open>obj.get(key)\<close>: only a dict has the method; a missing key gives \<^verbatim>\<open>None\<close>.\<close>

fun py_get :: "pyval \<Rightarrow> string \<Rightarrow> exn + pyval" where
  "py_get (PDict kvs) k = (case map_of kvs k of None \<Rightarrow> Inr PNone | Some v \<Rightarrow> Inr v)"
| "py_get v k = Inl (AttributeError (quoted (type_name v) @ '' object has no attribute '' @ quoted ''get''))"

section \<open>The calendar provider\<close>

record time_spec =
  dateTime :: string
  timeZone :: string

record event_body =
  ev_summary :: pyval
  ev_description :: pyval
  ev_start :: time_spec
  ev_end :: time_spec
  ev_attendees :: "pyval list"

record insert_request =
  calendarId :: string
  body :: event_body
  sendUpdates :: string

text \<open>
  The calendar as this program sees it: the requests it has sent to
  \<^verbatim>\<open>events().insert(...).execute()\<close> so far, in order. The program makes a
  calendar call exactly when this log grows.
\<close>

type_synonym calendar = "insert_request list"

section \<open>The assistant provider\<close>

record tool_call =
  tc_id :: string
  function_name :: string
  function_arguments :: string

record tool_output =
  out_tool_call_id :: string
  out_text :: string

text \<open>
  What \<^verbatim>\<open>runs.retrieve\<close> answers: the status string and, when the run waits
  for tool outputs, the pending tool calls (\<^verbatim>\<open>required_action\<close> is \<^verbatim>\<open>None\<close>
  otherwise).
\<close>

record run_status =
  status :: string
  required_action :: "tool_call list option"

text \<open>
  A content block of a message: a text block with its \<^verbatim>\<open>text.value\<close>, or a
  block of another class (an image file, an image URL, a refusal), which has
  no \<^verbatim>\<open>text\<close> attribute; it carries the name of its class.
\<close>

datatype content_block = TextBlock string | OtherBlock string

record message =
  role :: string
  content :: "content_block list"

text \<open>
  The calls the program makes to the assistant service, in order, each logged
  when it is made, whether it then answers or raises.
\<close>

datatype api_call =
    MessagesCreate string string string
  | RunsCreate string string
  | RunsRetrieve string string
  | SubmitToolOutputs string string "tool_output list"
  | MessagesList string

record world =
  cal_log :: calendar
  api_log :: "api_call list"

section \<open>The libraries and services the program calls\<close>

text \<open>
  None of these is code of the repository, so each is a parameter:
  \<^item> \<open>json_loads\<close> is \<^verbatim>\<open>json.loads\<close>;
  \<^item> \<open>parse\<close> is \<^verbatim>\<open>dateutil.parser.parse\<close> and \<open>isoformat\<close> the method of the
    \<^verbatim>\<open>datetime\<close> it returns (\<open>'d\<close> is that type);
  \<^item> \<open>str_other\<close> is \<^verbatim>\<open>str()\<close> on values that are neither a string nor \<^verbatim>\<open>None\<close>;
  \<^item> \<open>provider\<close> is the calendar service: its answer to a request, given the
    requests made before it;
  \<^item> \<open>messages_create\<close> is \<^verbatim>\<open>threads.messages.create\<close> on the text sent, and
    \<open>runs_create\<close> is \<^verbatim>\<open>threads.runs.create\<close>, answering with the identifier of
    the run;
  \<^item> \<open>polls\<close> is the sequence of answers of \<^verbatim>\<open>runs.retrieve\<close>, with \<open>polls 0\<close>
    the first;
  \<^item> \<open>submit_tool_outputs\<close> is the sequence of answers of
    \<^verbatim>\<open>runs.submit_tool_outputs\<close>: \<open>submit_tool_outputs n\<close> answers the
    submission made in the pass of the loop that began with \<open>polls n\<close>;
  \<^item> \<open>messages_list\<close> is the \<^verbatim>\<open>data\<close> of \<^verbatim>\<open>threads.messages.list\<close>, which the
    service orders newest first;
  \<^item> \<open>thread_id\<close> and \<open>assistant_id\<close> are the identifiers the service handed
    out when the assistant object was built.
  Every one of these calls can raise (\<open>Inl\<close>): a transport error, a rejected
  request, a rate limit.
\<close>

record 'd env =
  json_loads :: "string \<Rightarrow> exn + pyval"
  parse :: "pyval \<Rightarrow> exn + 'd"
  isoformat :: "'d \<Rightarrow> string"
  str_other :: "pyval \<Rightarrow> string"
  provider :: "calendar \<Rightarrow> insert_request \<Rightarrow> exn + pyval"
  messages_create :: "string \<Rightarrow> exn + unit"
  runs_create :: "exn + string"
  polls :: "nat \<Rightarrow> exn + run_status"
  submit_tool_outputs :: "nat \<Rightarrow> exn + unit"
  messages_list :: "exn + message list"
  thread_id :: string
  assistant_id :: string

section \<open>GoogleCalendarClient.create\_event\<close>

definition TIMEZONE :: string where
  "TIMEZONE = ''UTC''"

text \<open>The list comprehension \<^verbatim>\<open>[{'email': email} for email in attendees] if attendees else []\<close>.\<close>

definition attendee_list :: "pyval \<Rightarrow> exn + pyval list" where
  "attendee_list attendees =
     (if truthy attendees
      then (case py_iter attendees of
              Inl e \<Rightarrow> Inl e
            | Inr emails \<Rightarrow> Inr (map (\<lambda>email. PDict [(''email'', email)]) emails))
      else Inr [])"

definition create_event ::
  "'d env \<Rightarrow> pyval \<Rightarrow> string \<Rightarrow> string \<Rightarrow> pyval \<Rightarrow> pyval \<Rightarrow> calendar \<Rightarrow> (exn + pyval) \<times> calendar"
where
  "create_event E summary start_time end_time attendees description cal =
     (case attendee_list attendees of
        Inl e \<Rightarrow> (Inl e, cal)
      | Inr atts \<Rightarrow>
          (let event = \<lparr> ev_summary = summary,
                         ev_description = description,
                         ev_start = \<lparr> dateTime = start_time, timeZone = TIMEZONE \<rparr>,
                         ev_end = \<lparr> dateTime = end_time, timeZone = TIMEZONE \<rparr>,
                         ev_attendees = atts \<rparr>;
               req = \<lparr> calendarId = ''primary'',
                       body = event,
                       sendUpdates = (if truthy attendees then ''all'' else ''none'') \<rparr>
           in (provider E cal req, cal @ [req])))"

section \<open>OpenAIAssistant.process\_function\_call\<close>

text \<open>How an f-string renders a value: a string as itself, \<^verbatim>\<open>None\<close> as its name.\<close>

fun format_value :: "'d env \<Rightarrow> pyval \<Rightarrow> string" where
  "format_value E (PStr s) = s"
| "format_value E PNone = ''None''"
| "format_value E v = str_other E v"

text \<open>
  The body of the \<^verbatim>\<open>try\<close> block. An exception at any step ends the block;
  the calendar log shows whether the provider had been called by then.
\<close>

definition try_block :: "'d env \<Rightarrow> pyval \<Rightarrow> calendar \<Rightarrow> (exn + string) \<times> calendar" where
  "try_block E arguments cal =
     (case py_getitem arguments ''start_time'' of Inl e \<Rightarrow> (Inl e, cal) | Inr s \<Rightarrow>
     (case parse E s of Inl e \<Rightarrow> (Inl e, cal) | Inr sd \<Rightarrow>
     (case py_getitem arguments ''end_time'' of Inl e \<Rightarrow> (Inl e, cal) | Inr t \<Rightarrow>
     (case parse E t of Inl e \<Rightarrow> (Inl e, cal) | Inr td \<Rightarrow>
     (case py_getitem arguments ''summary'' of Inl e \<Rightarrow> (Inl e, cal) | Inr summary \<Rightarrow>
     (case py_get arguments ''attendees'' of Inl e \<Rightarrow> (Inl e, cal) | Inr attendees \<Rightarrow>
     (case py_get arguments ''description'' of Inl e \<Rightarrow> (Inl e, cal) | Inr description \<Rightarrow>
     (case create_event E summary (isoformat E sd) (isoformat E td) attendees description cal of
        (Inl e, cal') \<Rightarrow> (Inl e, cal')
      | (Inr event, cal') \<Rightarrow>
          (case py_get event ''htmlLink'' of
             Inl e \<Rightarrow> (Inl e, cal')
           | Inr link \<Rightarrow> (Inr (''Event created: '' @ format_value E link), cal'))))))))))"

text \<open>
  \<^verbatim>\<open>json.loads\<close> runs first, before the dispatch on the name and outside the
  \<^verbatim>\<open>try\<close>: what it raises leaves the function. \<open>Inl\<close> is an exception that
  leaves \<^verbatim>\<open>process_function_call\<close>, \<open>Inr\<close> the string it returns.
\<close>

definition process_function_call ::
  "'d env \<Rightarrow> tool_call \<Rightarrow> calendar \<Rightarrow> (exn + string) \<times> calendar"
where
  "process_function_call E tc cal =
     (case json_loads E (function_arguments tc) of
        Inl e \<Rightarrow> (Inl e, cal)
      | Inr arguments \<Rightarrow>
          if function_name tc = ''create_google_calendar_event''
          then (case try_block E arguments cal of
                  (Inr s, cal') \<Rightarrow> (Inr s, cal')
                | (Inl e, cal') \<Rightarrow> (Inr (''Error creating event: '' @ str_exn e), cal'))
          else (Inr ''Unknown function called'', cal))"

section \<open>OpenAIAssistant.run\_assistant\<close>

text \<open>The \<^verbatim>\<open>for\<close> loop over the pending tool calls, appending to \<^verbatim>\<open>tool_outputs\<close>.\<close>

fun tool_outputs_loop ::
  "'d env \<Rightarrow> tool_call list \<Rightarrow> tool_output list \<Rightarrow> calendar \<Rightarrow> (exn + tool_output list) \<times> calendar"
where
  "tool_outputs_loop E [] tool_outputs cal = (Inr tool_outputs, cal)"
| "tool_outputs_loop E (tc # tcs) tool_outputs cal =
     (case process_function_call E tc cal of
        (Inl e, cal') \<Rightarrow> (Inl e, cal')
      | (Inr out, cal') \<Rightarrow>
          tool_outputs_loop E tcs
            (tool_outputs @ [\<lparr> out_tool_call_id = tc_id tc, out_text = out \<rparr>]) cal')"

text \<open>After the loop: \<^verbatim>\<open>messages.list\<close>, then \<^verbatim>\<open>messages.data[0].content[0].text.value\<close>.\<close>

definition read_reply :: "'d env \<Rightarrow> world \<Rightarrow> (exn + string) \<times> world" where
  "read_reply E w =
     (let w' = w\<lparr> api_log := api_log w @ [MessagesList (thread_id E)] \<rparr>
      in case messages_list E of
           Inl e \<Rightarrow> (Inl e, w')
         | Inr msgs \<Rightarrow>
             (case msgs of
                [] \<Rightarrow> (Inl (IndexError ''list index out of range''), w')
              | m # ms \<Rightarrow>
                  (case content m of
                     [] \<Rightarrow> (Inl (IndexError ''list index out of range''), w')
                   | TextBlock t # bs \<Rightarrow> (Inr t, w')
                   | OtherBlock cls # bs \<Rightarrow>
                       (Inl (AttributeError
                          (quoted cls @ '' object has no attribute '' @ quoted ''text'')), w'))))"

text \<open>
  How one pass through the body of the \<^verbatim>\<open>while True\<close> loop ends: the loop
  goes round again, \<^verbatim>\<open>break\<close> leaves it, \<^verbatim>\<open>return\<close> leaves the function with a
  string, or an exception leaves the function (\<^verbatim>\<open>run_assistant\<close> has no
  handler).
\<close>

datatype control = Again | Break | Return string | Raise exn

text \<open>
  The body of the loop at its \<open>k\<close>-th pass, for the run \<open>rid\<close>: the poll, then
  the branch on the status. It gives how the pass ends and the world it leaves.
\<close>

definition poll_step :: "'d env \<Rightarrow> string \<Rightarrow> nat \<Rightarrow> world \<Rightarrow> control \<times> world" where
  "poll_step E rid k w =
     (let w1 = w\<lparr> api_log := api_log w @ [RunsRetrieve (thread_id E) rid] \<rparr>
      in case polls E k of
           Inl e \<Rightarrow> (Raise e, w1)
         | Inr rs \<Rightarrow>
             if status rs = ''completed'' then (Break, w1)
             else if status rs = ''requires_action'' then
               (case required_action rs of
                  None \<Rightarrow>
                    (Raise (AttributeError
                       (quoted ''NoneType'' @ '' object has no attribute '' @
                        quoted ''submit_tool_outputs'')), w1)
                | Some tcs \<Rightarrow>
                    (case tool_outputs_loop E tcs [] (cal_log w1) of
                       (Inl e, cal') \<Rightarrow> (Raise e, w1\<lparr> cal_log := cal' \<rparr>)
                     | (Inr outs, cal') \<Rightarrow>
                         (case submit_tool_outputs E k of
                            Inl e \<Rightarrow> Raise e
                          | Inr u \<Rightarrow> Again,
                          w1\<lparr> cal_log := cal',
                               api_log := api_log w1 @
                                 [SubmitToolOutputs (thread_id E) rid outs] \<rparr>)))
             else if status rs \<in> set [''failed'', ''cancelled'', ''expired'']
               then (Return ''Run failed'', w1)
             else (Again, w1))"

text \<open>
  The \<^verbatim>\<open>while True\<close> loop from its \<open>k\<close>-th pass on, with what follows it.
  \<open>None\<close> is a loop that never ends; \<open>Some (Inl e, w)\<close> an exception leaving
  \<^verbatim>\<open>run_assistant\<close>; \<open>Some (Inr s, w)\<close> the string returned.
\<close>

partial_function (option) poll_loop ::
  "'d env \<Rightarrow> string \<Rightarrow> nat \<Rightarrow> world \<Rightarrow> ((exn + string) \<times> world) option"
where
  "poll_loop E rid k w =
     (case poll_step E rid k w of
        (Again, w') \<Rightarrow> poll_loop E rid (Suc k) w'
      | (Break, w') \<Rightarrow> Some (read_reply E w')
      | (Return s, w') \<Rightarrow> Some (Inr s, w')
      | (Raise e, w') \<Rightarrow> Some (Inl e, w'))"

definition run_assistant ::
  "'d env \<Rightarrow> string \<Rightarrow> world \<Rightarrow> ((exn + string) \<times> world) option"
where
  "run_assistant E user_input w =
     (let w1 = w\<lparr> api_log := api_log w @
                     [MessagesCreate (thread_id E) ''user'' user_input] \<rparr>
      in case messages_create E user_input of
           Inl e \<Rightarrow> Some (Inl e, w1)
         | Inr u \<Rightarrow>
             (let w2 = w1\<lparr> api_log := api_log w1 @
                             [RunsCreate (thread_id E) (assistant_id E)] \<rparr>
              in case runs_create E of
                   Inl e \<Rightarrow> Some (Inl e, w2)
                 | Inr rid \<Rightarrow> poll_loop E rid 0 w2))"

section \<open>The vocabulary of the claims\<close>



text \<open>The world after one more \<^verbatim>\<open>runs.retrieve\<close>, nothing else touched.\<close>

definition polled :: "'d env \<Rightarrow> string \<Rightarrow> world \<Rightarrow> world" where
  "polled E rid w = w\<lparr> api_log := api_log w @ [RunsRetrieve (thread_id E) rid] \<rparr>"






section \<open>A sample conversation\<close>

text \<open>
  One concrete set of answers from the libraries and services, for evaluating
  the program. The decoder and the date parser are given by their answers on
  the texts used here: the decoder on the meeting payload, on \<^verbatim>\<open>{}\<close> and on
  the truncated \<^verbatim>\<open>{\<close>; the parser on the two times of the meeting. Datetimes
  are naive, to the second.
\<close>

datatype naive_datetime = NaiveDateTime nat nat nat nat nat nat

definition digit :: "nat \<Rightarrow> char" where
  "digit n = ''0123456789'' ! (n mod 10)"

definition pad2 :: "nat \<Rightarrow> string" where
  "pad2 n = [digit (n div 10), digit n]"

definition pad4 :: "nat \<Rightarrow> string" where
  "pad4 n = [digit (n div 1000), digit (n div 100), digit (n div 10), digit n]"

fun naive_isoformat :: "naive_datetime \<Rightarrow> string" where
  "naive_isoformat (NaiveDateTime y mo d h mi s) =
     pad4 y @ ''-'' @ pad2 mo @ ''-'' @ pad2 d @ ''T'' @ pad2 h @ '':'' @ pad2 mi @ '':'' @ pad2 s"

definition meeting_payload :: string where
  \<open>meeting_payload =
     ''{"summary": "Team meeting", "start_time": "2024-06-03 14:00", "end_time": "2024-06-03 15:00", "attendees": ["alice@example.com", "bob@example.com"]}''\<close>

definition meeting_arguments :: pyval where
  "meeting_arguments =
     PDict [(''summary'', PStr ''Team meeting''),
            (''start_time'', PStr ''2024-06-03 14:00''),
            (''end_time'', PStr ''2024-06-03 15:00''),
            (''attendees'', PList [PStr ''alice@example.com'', PStr ''bob@example.com''])]"

definition sample_json_loads :: "string \<Rightarrow> exn + pyval" where
  "sample_json_loads s =
     (if s = meeting_payload then Inr meeting_arguments
      else if s = ''{}'' then Inr (PDict [])
      else Inl (JSONDecodeError
        ''Expecting property name enclosed in double quotes: line 1 column 2 (char 1)''))"

fun sample_parse :: "pyval \<Rightarrow> exn + naive_datetime" where
  "sample_parse (PStr s) =
     (if s = ''2024-06-03 14:00'' then Inr (NaiveDateTime 2024 6 3 14 0 0)
      else if s = ''2024-06-03 15:00'' then Inr (NaiveDateTime 2024 6 3 15 0 0)
      else Inl (LibraryError (''Unknown string format: '' @ s)))"
| "sample_parse v =
     Inl (TypeError (''Parser must be a string or character stream, not '' @ type_name v))"

definition sample_link :: string where
  "sample_link = ''https://www.google.com/calendar/event?eid=ZXZ0MQ''"

definition sample_provider :: "calendar \<Rightarrow> insert_request \<Rightarrow> exn + pyval" where
  "sample_provider cal req =
     Inr (PDict [(''id'', PStr ''evt1''), (''htmlLink'', PStr sample_link)])"

definition meeting_call :: tool_call where
  "meeting_call =
     \<lparr> tc_id = ''call_1'',
       function_name = ''create_google_calendar_event'',
       function_arguments = meeting_payload \<rparr>"

definition truncated_call :: tool_call where
  "truncated_call =
     \<lparr> tc_id = ''call_2'',
       function_name = ''create_google_calendar_event'',
       function_arguments = ''{'' \<rparr>"

definition stray_call :: tool_call where
  "stray_call =
     \<lparr> tc_id = ''call_3'',
       function_name = ''delete_google_calendar_event'',
       function_arguments = ''{'' \<rparr>"

definition sample_reply :: string where
  "sample_reply = ''Your meeting is booked: https://www.google.com/calendar/event?eid=ZXZ0MQ''"

definition sample_messages :: "message list" where
  "sample_messages =
     [\<lparr> role = ''assistant'', content = [TextBlock sample_reply] \<rparr>,
      \<lparr> role = ''user'', content = [TextBlock ''Schedule a team meeting''] \<rparr>]"

text \<open>
  The run is queued at the first poll, asks for one tool call at the second and
  is completed from the third on.
\<close>

definition sample_polls :: "nat \<Rightarrow> exn + run_status" where
  "sample_polls n =
     (if n = 0 then Inr \<lparr> status = ''queued'', required_action = None \<rparr>
      else if n = 1 then
        Inr \<lparr> status = ''requires_action'', required_action = Some [meeting_call] \<rparr>
      else Inr \<lparr> status = ''completed'', required_action = None \<rparr>)"

definition sample_env :: "naive_datetime env" where
  "sample_env =
     \<lparr> json_loads = sample_json_loads,
       parse = sample_parse,
       isoformat = naive_isoformat,
       str_other = (\<lambda>v. []),
       provider = sample_provider,
       messages_create = (\<lambda>text. Inr ()),
       runs_create = Inr ''run_1'',
       polls = sample_polls,
       submit_tool_outputs = (\<lambda>n. Inr ()),
       messages_list = Inr sample_messages,
       thread_id = ''thread_1'',
       assistant_id = ''asst_1'' \<rparr>"

text \<open>The same services with other sequences of polls: a run that has failed.\<close>

definition failing_env :: "naive_datetime env" where
  "failing_env =
     sample_env\<lparr> polls := (\<lambda>n. Inr \<lparr> status = ''failed'', required_action = None \<rparr>) \<rparr>"

text \<open>A run that asks for action with no tool call, and is cancelled after.\<close>

definition idle_polls :: "nat \<Rightarrow> exn + run_status" where
  "idle_polls n =
     (if n = 0 then Inr \<lparr> status = ''requires_action'', required_action = Some [] \<rparr>
      else Inr \<lparr> status = ''cancelled'', required_action = None \<rparr>)"

definition idle_env :: "naive_datetime env" where
  "idle_env = sample_env\<lparr> polls := idle_polls \<rparr>"

text \<open>A run that asks for a tool call whose payload is the truncated \<^verbatim>\<open>{\<close>.\<close>

definition truncated_env :: "naive_datetime env" where
  "truncated_env =
     sample_env\<lparr> polls :=
       (\<lambda>n. Inr \<lparr> status = ''requires_action'', required_action = Some [truncated_call] \<rparr>) \<rparr>"


text \<open>
  A completed run whose newest message starts with an image, the text coming
  second.
\<close>

definition image_messages :: "message list" where
  "image_messages =
     [\<lparr> role = ''assistant'',
        content = [OtherBlock ''ImageFileContentBlock'', TextBlock sample_reply] \<rparr>,
      \<lparr> role = ''user'', content = [TextBlock ''Schedule a team meeting''] \<rparr>]"

definition image_env :: "naive_datetime env" where
  "image_env =
     sample_env\<lparr> polls := (\<lambda>n. Inr \<lparr> status = ''completed'', required_action = None \<rparr>),
                 messages_list := Inr image_messages \<rparr>"

definition world0 :: world where
  "world0 = \<lparr> cal_log = [], api_log = [] \<rparr>"

definition meeting_request :: insert_request where
  "meeting_request =
     \<lparr> calendarId = ''primary'',
       body = \<lparr> ev_summary = PStr ''Team meeting'',
                ev_description = PNone,
                ev_start = \<lparr> dateTime = ''2024-06-03T14:00:00'', timeZone = ''UTC'' \<rparr>,
                ev_end = \<lparr> dateTime = ''2024-06-03T15:00:00'', timeZone = ''UTC'' \<rparr>,
                ev_attendees = [PDict [(''email'', PStr ''alice@example.com'')],
                                PDict [(''email'', PStr ''bob@example.com'')]] \<rparr>,
       sendUpdates = ''all'' \<rparr>"

section \<open>Facts about the tool-call dispatch\<close>

lemma pfc_decode_failure:
  "json_loads E (function_arguments tc) = Inl e \<Longrightarrow>
     process_function_call E tc cal = (Inl e, cal)"
  by (simp add: process_function_call_def)


lemma pfc_unknown:
  "json_loads E (function_arguments tc) = Inr a \<Longrightarrow>
   function_name tc \<noteq> ''create_google_calendar_event'' \<Longrightarrow>
     process_function_call E tc cal = (Inr ''Unknown function called'', cal)"
  by (simp add: process_function_call_def)


section \<open>Facts about the batch of tool outputs\<close>




section \<open>Facts about one pass of the polling loop\<close>


lemma step_completed:
  assumes "polls E k = Inr rs" and "status rs = ''completed''"
  shows "poll_step E rid k w = (Break, polled E rid w)"
  using assms by (simp add: poll_step_def polled_def)

lemma step_failed:
  assumes "polls E k = Inr rs"
    and "status rs \<in> set [''failed'', ''cancelled'', ''expired'']"
  shows "poll_step E rid k w = (Return ''Run failed'', polled E rid w)"
  using assms by (auto simp: poll_step_def polled_def)


lemma step_requires_action:
  assumes "polls E k = Inr rs" and "status rs = ''requires_action''"
    and "required_action rs = Some tcs"
    and "tool_outputs_loop E tcs [] (cal_log w) = (Inr outs, cal')"
  shows "poll_step E rid k w =
           ((case submit_tool_outputs E k of Inl e \<Rightarrow> Raise e | Inr u \<Rightarrow> Again),
            w\<lparr> cal_log := cal',
                api_log := api_log w @
                  [RunsRetrieve (thread_id E) rid,
                   SubmitToolOutputs (thread_id E) rid outs] \<rparr>)"
  using assms by (simp add: poll_step_def)

lemma step_requires_action_raises:
  assumes "polls E k = Inr rs" and "status rs = ''requires_action''"
    and "required_action rs = Some tcs"
    and "tool_outputs_loop E tcs [] (cal_log w) = (Inl e, cal')"
  shows "poll_step E rid k w = (Raise e, polled E rid w\<lparr> cal_log := cal' \<rparr>)"
  using assms by (simp add: poll_step_def polled_def)





section \<open>Facts about the polling loop\<close>

lemma poll_loop_again:
  assumes "poll_step E rid k w = (Again, w')"
  shows "poll_loop E rid k w = poll_loop E rid (Suc k) w'"
  using assms by (subst poll_loop.simps) simp

lemma poll_loop_break:
  assumes "poll_step E rid k w = (Break, w')"
  shows "poll_loop E rid k w = Some (read_reply E w')"
  using assms by (subst poll_loop.simps) simp

lemma poll_loop_return:
  assumes "poll_step E rid k w = (Return s, w')"
  shows "poll_loop E rid k w = Some (Inr s, w')"
  using assms by (subst poll_loop.simps) simp

lemma poll_loop_raise:
  assumes "poll_step E rid k w = (Raise e, w')"
  shows "poll_loop E rid k w = Some (Inl e, w')"
  using assms by (subst poll_loop.simps) simp




section \<open>Facts about the whole of run\_assistant\<close>




section \<open>The sample conversation, evaluated\<close>

lemma sample_decoder [simp]:
  "json_loads sample_env meeting_payload = Inr meeting_arguments"
  "json_loads sample_env ''{'' =
     Inl (JSONDecodeError
       ''Expecting property name enclosed in double quotes: line 1 column 2 (char 1)'')"
  by (simp_all add: sample_env_def sample_json_loads_def meeting_payload_def)

lemma sample_meeting_call:
  "process_function_call sample_env meeting_call [] =
     (Inr (''Event created: '' @ sample_link), [meeting_request])"
  by (simp add: process_function_call_def meeting_call_def try_block_def meeting_arguments_def
      create_event_def attendee_list_def TIMEZONE_def meeting_request_def
      pad2_def pad4_def digit_def sample_env_def [THEN arg_cong [of _ _ parse]]
      sample_env_def [THEN arg_cong [of _ _ isoformat]]
      sample_env_def [THEN arg_cong [of _ _ provider]] sample_provider_def)

lemma sample_selectors [simp]:
  "polls sample_env = sample_polls"
  "messages_create sample_env text = Inr ()"
  "runs_create sample_env = Inr ''run_1''"
  "submit_tool_outputs sample_env n = Inr ()"
  "messages_list sample_env = Inr sample_messages"
  "thread_id sample_env = ''thread_1''"
  "assistant_id sample_env = ''asst_1''"
  by (simp_all add: sample_env_def)

lemma variant_selectors [simp]:
  "json_loads (sample_env\<lparr> polls := p \<rparr>) = json_loads sample_env"
  "messages_create (sample_env\<lparr> polls := p \<rparr>) text = Inr ()"
  "runs_create (sample_env\<lparr> polls := p \<rparr>) = Inr ''run_1''"
  "submit_tool_outputs (sample_env\<lparr> polls := p \<rparr>) n = Inr ()"
  "messages_list (sample_env\<lparr> polls := p \<rparr>) = Inr sample_messages"
  "thread_id (sample_env\<lparr> polls := p \<rparr>) = ''thread_1''"
  "assistant_id (sample_env\<lparr> polls := p \<rparr>) = ''asst_1''"
  by (simp_all add: sample_env_def)

lemma image_selectors [simp]:
  "polls image_env n = Inr \<lparr> status = ''completed'', required_action = None \<rparr>"
  "messages_create image_env text = Inr ()"
  "runs_create image_env = Inr ''run_1''"
  "messages_list image_env = Inr image_messages"
  "thread_id image_env = ''thread_1''"
  "assistant_id image_env = ''asst_1''"
  by (simp_all add: image_env_def sample_env_def)

lemma truncated_step:
  "poll_step truncated_env rid k w =
     (Raise (JSONDecodeError
        ''Expecting property name enclosed in double quotes: line 1 column 2 (char 1)''),
      polled truncated_env rid w)"
proof -
  have "process_function_call truncated_env truncated_call (cal_log w) =
          (Inl (JSONDecodeError
            ''Expecting property name enclosed in double quotes: line 1 column 2 (char 1)''),
           cal_log w)"
    by (rule pfc_decode_failure) (simp add: truncated_call_def truncated_env_def)
  then have raised: "tool_outputs_loop truncated_env [truncated_call] [] (cal_log w) =
          (Inl (JSONDecodeError
            ''Expecting property name enclosed in double quotes: line 1 column 2 (char 1)''),
           cal_log w)"
    by simp
  have poll: "polls truncated_env k =
      Inr \<lparr> status = ''requires_action'', required_action = Some [truncated_call] \<rparr>"
    by (simp add: truncated_env_def)
  from step_requires_action_raises [OF poll _ _ raised, of rid] show ?thesis
    by (simp add: polled_def)
qed

text \<open>
  The sample conversation from end to end: the run is polled three times, the
  meeting is created once, its result is submitted, and the reply is read.
\<close>

lemma sample_run:
  "run_assistant sample_env ''Schedule a team meeting'' world0 =
     Some (Inr sample_reply,
           \<lparr> cal_log = [meeting_request],
             api_log = [MessagesCreate ''thread_1'' ''user'' ''Schedule a team meeting'',
                        RunsCreate ''thread_1'' ''asst_1'',
                        RunsRetrieve ''thread_1'' ''run_1'',
                        RunsRetrieve ''thread_1'' ''run_1'',
                        SubmitToolOutputs ''thread_1'' ''run_1''
                          [\<lparr> out_tool_call_id = ''call_1'',
                             out_text = ''Event created: '' @ sample_link \<rparr>],
                        RunsRetrieve ''thread_1'' ''run_1'',
                        MessagesList ''thread_1''] \<rparr>)"
proof -
  let ?w2 = "\<lparr> cal_log = [],
               api_log = [MessagesCreate ''thread_1'' ''user'' ''Schedule a team meeting'',
                          RunsCreate ''thread_1'' ''asst_1''] \<rparr>"
  let ?w3 = "\<lparr> cal_log = [],
               api_log = [MessagesCreate ''thread_1'' ''user'' ''Schedule a team meeting'',
                          RunsCreate ''thread_1'' ''asst_1'',
                          RunsRetrieve ''thread_1'' ''run_1''] \<rparr>"
  let ?w4 = "\<lparr> cal_log = [meeting_request],
               api_log = [MessagesCreate ''thread_1'' ''user'' ''Schedule a team meeting'',
                          RunsCreate ''thread_1'' ''asst_1'',
                          RunsRetrieve ''thread_1'' ''run_1'',
                          RunsRetrieve ''thread_1'' ''run_1'',
                          SubmitToolOutputs ''thread_1'' ''run_1''
                            [\<lparr> out_tool_call_id = ''call_1'',
                               out_text = ''Event created: '' @ sample_link \<rparr>]] \<rparr>"
  have s0: "poll_step sample_env ''run_1'' 0 ?w2 = (Again, ?w3)"
    by (simp add: poll_step_def sample_polls_def)
  have loop1: "tool_outputs_loop sample_env [meeting_call] [] [] =
      (Inr [\<lparr> out_tool_call_id = ''call_1'',
               out_text = ''Event created: '' @ sample_link \<rparr>], [meeting_request])"
    by (simp add: sample_meeting_call) (simp add: meeting_call_def)
  have poll1: "polls sample_env (Suc 0) =
      Inr \<lparr> status = ''requires_action'', required_action = Some [meeting_call] \<rparr>"
    by (simp add: sample_polls_def)
  have loop1': "tool_outputs_loop sample_env [meeting_call] [] (cal_log ?w3) =
      (Inr [\<lparr> out_tool_call_id = ''call_1'',
               out_text = ''Event created: '' @ sample_link \<rparr>], [meeting_request])"
    using loop1 by simp
  have s1: "poll_step sample_env ''run_1'' (Suc 0) ?w3 = (Again, ?w4)"
    using step_requires_action [OF poll1 _ _ loop1', of "''run_1''"] by simp
  have poll2: "polls sample_env (Suc (Suc 0)) =
      Inr \<lparr> status = ''completed'', required_action = None \<rparr>"
    by (simp add: sample_polls_def)
  have s2: "poll_step sample_env ''run_1'' (Suc (Suc 0)) ?w4 =
      (Break, polled sample_env ''run_1'' ?w4)"
    using step_completed [OF poll2] by simp
  have "run_assistant sample_env ''Schedule a team meeting'' world0 =
      poll_loop sample_env ''run_1'' 0 ?w2"
    by (simp add: run_assistant_def world0_def)
  also have "\<dots> = poll_loop sample_env ''run_1'' (Suc 0) ?w3"
    by (rule poll_loop_again [OF s0])
  also have "\<dots> = poll_loop sample_env ''run_1'' (Suc (Suc 0)) ?w4"
    by (rule poll_loop_again [OF s1])
  also have "\<dots> = Some (read_reply sample_env (polled sample_env ''run_1'' ?w4))"
    by (rule poll_loop_break [OF s2])
  finally show ?thesis
    by (simp add: read_reply_def polled_def sample_messages_def)
qed

section \<open>The claims\<close>

text \<open>
  C1. \<^verbatim>\<open>process_function_call\<close> is to return a string for every request naming
  \<^verbatim>\<open>create_google_calendar_event\<close>, a malformed payload included. It does not:
  on the truncated payload \<^verbatim>\<open>{\<close> the decoder's exception leaves the function,
  since \<^verbatim>\<open>json.loads\<close> is called before the \<^verbatim>\<open>try\<close>.
\<close>

theorem C1_truncated_payload_raises:
  "process_function_call sample_env truncated_call [] =
     (Inl (JSONDecodeError
        ''Expecting property name enclosed in double quotes: line 1 column 2 (char 1)''), [])"
  by (rule pfc_decode_failure) (simp add: truncated_call_def)

text \<open>
  C7. A request naming an unknown function is to be answered with the fixed
  string. With the truncated payload \<^verbatim>\<open>{\<close> it is not: the decoder runs before
  the dispatch on the name, and its exception leaves the function. No calendar
  call is made.
\<close>

theorem C7_unknown_name_truncated_payload_raises:
  "function_name stray_call \<noteq> ''create_google_calendar_event'' \<and>
   process_function_call sample_env stray_call [] =
     (Inl (JSONDecodeError
        ''Expecting property name enclosed in double quotes: line 1 column 2 (char 1)''), [])"
proof
  show "function_name stray_call \<noteq> ''create_google_calendar_event''"
    by (simp add: stray_call_def)
  show "process_function_call sample_env stray_call [] =
     (Inl (JSONDecodeError
        ''Expecting property name enclosed in double quotes: line 1 column 2 (char 1)''), [])"
    by (rule pfc_decode_failure) (simp add: stray_call_def)
qed

text \<open>
  C2. At every poll that asks for action, one batch with one entry per pending
  tool call is to be submitted, and polling is to resume. When the payload of
  a pending call is the truncated \<^verbatim>\<open>{\<close>, neither happens: the pass over the
  loop body ends with the decoder's exception, the only call made to the
  service in it is the poll, and \<^verbatim>\<open>run_assistant\<close> ends with that exception
  after a single poll, nothing submitted.
\<close>

theorem C2_truncated_payload_nothing_submitted:
  "polls truncated_env 0 =
     Inr \<lparr> status = ''requires_action'', required_action = Some [truncated_call] \<rparr> \<and>
   poll_step truncated_env ''run_1'' 0 world0 =
     (Raise (JSONDecodeError
        ''Expecting property name enclosed in double quotes: line 1 column 2 (char 1)''),
      \<lparr> cal_log = [], api_log = [RunsRetrieve ''thread_1'' ''run_1''] \<rparr>) \<and>
   run_assistant truncated_env ''Schedule a team meeting'' world0 =
     Some (Inl (JSONDecodeError
        ''Expecting property name enclosed in double quotes: line 1 column 2 (char 1)''),
        \<lparr> cal_log = [],
          api_log = [MessagesCreate ''thread_1'' ''user'' ''Schedule a team meeting'',
                     RunsCreate ''thread_1'' ''asst_1'',
                     RunsRetrieve ''thread_1'' ''run_1''] \<rparr>)"
proof (intro conjI)
  show "polls truncated_env 0 =
     Inr \<lparr> status = ''requires_action'', required_action = Some [truncated_call] \<rparr>"
    by (simp add: truncated_env_def)
  show "poll_step truncated_env ''run_1'' 0 world0 =
     (Raise (JSONDecodeError
        ''Expecting property name enclosed in double quotes: line 1 column 2 (char 1)''),
      \<lparr> cal_log = [], api_log = [RunsRetrieve ''thread_1'' ''run_1''] \<rparr>)"
    by (simp add: truncated_step polled_def world0_def) (simp add: truncated_env_def)
  have "run_assistant truncated_env ''Schedule a team meeting'' world0 =
      poll_loop truncated_env ''run_1'' 0
        \<lparr> cal_log = [],
          api_log = [MessagesCreate ''thread_1'' ''user'' ''Schedule a team meeting'',
                     RunsCreate ''thread_1'' ''asst_1''] \<rparr>"
    by (simp add: run_assistant_def world0_def truncated_env_def)
  also have "\<dots> =
      Some (Inl (JSONDecodeError
        ''Expecting property name enclosed in double quotes: line 1 column 2 (char 1)''),
        polled truncated_env ''run_1''
          \<lparr> cal_log = [],
            api_log = [MessagesCreate ''thread_1'' ''user'' ''Schedule a team meeting'',
                       RunsCreate ''thread_1'' ''asst_1''] \<rparr>)"
    by (rule poll_loop_raise) (rule truncated_step)
  finally show "run_assistant truncated_env ''Schedule a team meeting'' world0 =
     Some (Inl (JSONDecodeError
        ''Expecting property name enclosed in double quotes: line 1 column 2 (char 1)''),
        \<lparr> cal_log = [],
          api_log = [MessagesCreate ''thread_1'' ''user'' ''Schedule a team meeting'',
                     RunsCreate ''thread_1'' ''asst_1'',
                     RunsRetrieve ''thread_1'' ''run_1''] \<rparr>)"
    by (simp add: polled_def) (simp add: truncated_env_def)
qed

text \<open>
  C3. At a poll whose status is \<^verbatim>\<open>failed\<close>, \<^verbatim>\<open>cancelled\<close> or \<^verbatim>\<open>expired\<close> the
  loop returns the fixed failure string at once: the only call made is the
  poll itself, so no tool outputs are submitted, the message list is not read
  and the calendar is not touched.
\<close>

theorem C3_failed_run_returns_at_once:
  assumes "polls E k = Inr rs"
    and "status rs \<in> set [''failed'', ''cancelled'', ''expired'']"
  shows "poll_loop E rid k w =
           Some (Inr ''Run failed'',
                 w\<lparr> api_log := api_log w @ [RunsRetrieve (thread_id E) rid] \<rparr>)"
  using poll_loop_return [OF step_failed [OF assms, of rid w]] by (simp add: polled_def)

theorem C3_failed_run_returns_at_once_witness:
  "polls failing_env 0 = Inr \<lparr> status = ''failed'', required_action = None \<rparr> \<and>
   ''failed'' \<in> set [''failed'', ''cancelled'', ''expired''] \<and>
   run_assistant failing_env ''Schedule a team meeting'' world0 =
     Some (Inr ''Run failed'',
           \<lparr> cal_log = [],
             api_log = [MessagesCreate ''thread_1'' ''user'' ''Schedule a team meeting'',
                        RunsCreate ''thread_1'' ''asst_1'',
                        RunsRetrieve ''thread_1'' ''run_1''] \<rparr>)"
proof -
  have h1: "polls failing_env 0 = Inr \<lparr> status = ''failed'', required_action = None \<rparr>"
    by (simp add: failing_env_def)
  have h2: "status \<lparr> status = ''failed'', required_action = None \<rparr> \<in>
      set [''failed'', ''cancelled'', ''expired'']"
    by simp
  show ?thesis
    using h1 C3_failed_run_returns_at_once [OF h1 h2, of "''run_1''"]
    by (simp add: run_assistant_def world0_def) (simp add: failing_env_def)
qed




text \<open>
  C5. \<^verbatim>\<open>create_event\<close> sends one request whose attendee list holds, for each
  email string given, the object \<^verbatim>\<open>{'email': email}\<close>, in order. With at least
  one attendee the request carries \<^verbatim>\<open>sendUpdates='all'\<close>; with none (no list
  given, or an empty one) the attendee list is empty and it carries
  \<^verbatim>\<open>sendUpdates='none'\<close>.
\<close>

theorem C5_create_event_attendees_and_updates:
  "create_event E summary start_time end_time (PList (map PStr emails)) description cal =
     (provider E cal
        \<lparr> calendarId = ''primary'',
          body = \<lparr> ev_summary = summary, ev_description = description,
                   ev_start = \<lparr> dateTime = start_time, timeZone = ''UTC'' \<rparr>,
                   ev_end = \<lparr> dateTime = end_time, timeZone = ''UTC'' \<rparr>,
                   ev_attendees = map (\<lambda>e. PDict [(''email'', PStr e)]) emails \<rparr>,
          sendUpdates = (if emails = [] then ''none'' else ''all'') \<rparr>,
      cal @
        [\<lparr> calendarId = ''primary'',
           body = \<lparr> ev_summary = summary, ev_description = description,
                    ev_start = \<lparr> dateTime = start_time, timeZone = ''UTC'' \<rparr>,
                    ev_end = \<lparr> dateTime = end_time, timeZone = ''UTC'' \<rparr>,
                    ev_attendees = map (\<lambda>e. PDict [(''email'', PStr e)]) emails \<rparr>,
           sendUpdates = (if emails = [] then ''none'' else ''all'') \<rparr>]) \<and>
   create_event E summary start_time end_time PNone description cal =
     (provider E cal
        \<lparr> calendarId = ''primary'',
          body = \<lparr> ev_summary = summary, ev_description = description,
                   ev_start = \<lparr> dateTime = start_time, timeZone = ''UTC'' \<rparr>,
                   ev_end = \<lparr> dateTime = end_time, timeZone = ''UTC'' \<rparr>,
                   ev_attendees = [] \<rparr>,
          sendUpdates = ''none'' \<rparr>,
      cal @
        [\<lparr> calendarId = ''primary'',
           body = \<lparr> ev_summary = summary, ev_description = description,
                    ev_start = \<lparr> dateTime = start_time, timeZone = ''UTC'' \<rparr>,
                    ev_end = \<lparr> dateTime = end_time, timeZone = ''UTC'' \<rparr>,
                    ev_attendees = [] \<rparr>,
           sendUpdates = ''none'' \<rparr>])"
  by (simp add: create_event_def attendee_list_def TIMEZONE_def Let_def comp_def)

text \<open>
  C6. For a request naming \<^verbatim>\<open>create_google_calendar_event\<close> whose payload
  decodes to an object with the three required keys, whose two timestamps the
  parser accepts, and whose event creation succeeds with an event object that
  carries a link, \<^verbatim>\<open>process_function_call\<close> returns \<^verbatim>\<open>Event created: \<close>
  followed by that link, after exactly one calendar request, whose start and
  end are the ISO forms of the two parsed timestamps.
\<close>

theorem C6_event_created:
  assumes "function_name tc = ''create_google_calendar_event''"
    and "json_loads E (function_arguments tc) = Inr (PDict kvs)"
    and "map_of kvs ''start_time'' = Some s" and "parse E s = Inr sd"
    and "map_of kvs ''end_time'' = Some t" and "parse E t = Inr td"
    and "map_of kvs ''summary'' = Some summary"
    and "create_event E summary (isoformat E sd) (isoformat E td)
           (case map_of kvs ''attendees'' of None \<Rightarrow> PNone | Some v \<Rightarrow> v)
           (case map_of kvs ''description'' of None \<Rightarrow> PNone | Some v \<Rightarrow> v) cal =
         (Inr (PDict event), cal')"
    and "map_of event ''htmlLink'' = Some (PStr link)"
    and "link \<noteq> []"
  shows "process_function_call E tc cal = (Inr (''Event created: '' @ link), cal') \<and>
         (\<exists>req. cal' = cal @ [req] \<and>
                provider E cal req = Inr (PDict event) \<and>
                ev_summary (body req) = summary \<and>
                dateTime (ev_start (body req)) = isoformat E sd \<and>
                dateTime (ev_end (body req)) = isoformat E td)"
proof
  have "try_block E (PDict kvs) cal = (Inr (''Event created: '' @ link), cal')"
    using assms(3-9)
    by (simp add: try_block_def split: option.splits)
  with assms(1,2)
  show "process_function_call E tc cal = (Inr (''Event created: '' @ link), cal')"
    by (simp add: process_function_call_def)
next
  from assms(8)
  show "\<exists>req. cal' = cal @ [req] \<and>
                provider E cal req = Inr (PDict event) \<and>
                ev_summary (body req) = summary \<and>
                dateTime (ev_start (body req)) = isoformat E sd \<and>
                dateTime (ev_end (body req)) = isoformat E td"
    by (auto simp: create_event_def Let_def split: sum.splits)
qed

theorem C6_event_created_witness:
  "function_name meeting_call = ''create_google_calendar_event'' \<and>
   json_loads sample_env (function_arguments meeting_call) = Inr meeting_arguments \<and>
   parse sample_env (PStr ''2024-06-03 14:00'') = Inr (NaiveDateTime 2024 6 3 14 0 0) \<and>
   parse sample_env (PStr ''2024-06-03 15:00'') = Inr (NaiveDateTime 2024 6 3 15 0 0) \<and>
   isoformat sample_env (NaiveDateTime 2024 6 3 14 0 0) = ''2024-06-03T14:00:00'' \<and>
   isoformat sample_env (NaiveDateTime 2024 6 3 15 0 0) = ''2024-06-03T15:00:00'' \<and>
   process_function_call sample_env meeting_call [] =
     (Inr (''Event created: '' @ sample_link), [meeting_request])"
proof -
  let ?kvs = "[(''summary'', PStr ''Team meeting''),
            (''start_time'', PStr ''2024-06-03 14:00''),
            (''end_time'', PStr ''2024-06-03 15:00''),
            (''attendees'', PList [PStr ''alice@example.com'', PStr ''bob@example.com''])]"
  let ?event = "[(''id'', PStr ''evt1''), (''htmlLink'', PStr sample_link)]"
  let ?sd = "NaiveDateTime 2024 6 3 14 0 0" and ?td = "NaiveDateTime 2024 6 3 15 0 0"
  have parse_eq: "parse sample_env = sample_parse"
    and iso_eq: "isoformat sample_env = naive_isoformat"
    and prov_eq: "provider sample_env = sample_provider"
    by (simp_all add: sample_env_def)
  have h1: "function_name meeting_call = ''create_google_calendar_event''"
    by (simp add: meeting_call_def)
  have h2: "json_loads sample_env (function_arguments meeting_call) = Inr (PDict ?kvs)"
    by (simp add: meeting_call_def meeting_arguments_def)
  have h3: "map_of ?kvs ''start_time'' = Some (PStr ''2024-06-03 14:00'')" by simp
  have h4: "parse sample_env (PStr ''2024-06-03 14:00'') = Inr ?sd" by (simp add: parse_eq)
  have h5: "map_of ?kvs ''end_time'' = Some (PStr ''2024-06-03 15:00'')" by simp
  have h6: "parse sample_env (PStr ''2024-06-03 15:00'') = Inr ?td" by (simp add: parse_eq)
  have h7: "map_of ?kvs ''summary'' = Some (PStr ''Team meeting'')" by simp
  have i1: "isoformat sample_env ?sd = ''2024-06-03T14:00:00''"
    and i2: "isoformat sample_env ?td = ''2024-06-03T15:00:00''"
    by (simp_all add: iso_eq pad2_def pad4_def digit_def)
  have h8: "create_event sample_env (PStr ''Team meeting'') (isoformat sample_env ?sd)
           (isoformat sample_env ?td)
           (case map_of ?kvs ''attendees'' of None \<Rightarrow> PNone | Some v \<Rightarrow> v)
           (case map_of ?kvs ''description'' of None \<Rightarrow> PNone | Some v \<Rightarrow> v) [] =
         (Inr (PDict ?event), [meeting_request])"
    by (simp add: i1 i2 create_event_def attendee_list_def TIMEZONE_def meeting_request_def
        prov_eq sample_provider_def)
  have h9: "map_of ?event ''htmlLink'' = Some (PStr sample_link)" by simp
  have h10: "sample_link \<noteq> []" by (simp add: sample_link_def)
  from C6_event_created [OF h1 h2 h3 h4 h5 h6 h7 h8 h9 h10]
  have "process_function_call sample_env meeting_call [] =
     (Inr (''Event created: '' @ sample_link), [meeting_request])"
    by simp
  with h1 h2 h4 h6 i1 i2 show ?thesis
    by (simp add: meeting_arguments_def)
qed

text \<open>
  C9. At a poll that asks for action with an empty list of tool calls, the
  loop over the calls does nothing: \<^verbatim>\<open>process_function_call\<close> and
  \<^verbatim>\<open>create_event\<close> are not reached and the calendar log is unchanged. The
  pass makes two calls to the service, the poll and the submission of the
  empty batch, and the loop goes round again when the submission is accepted.
\<close>

theorem C9_empty_tool_call_list:
  assumes "polls E k = Inr rs" and "status rs = ''requires_action''"
    and "required_action rs = Some []"
  shows "tool_outputs_loop E [] [] (cal_log w) = (Inr [], cal_log w) \<and>
         poll_step E rid k w =
           ((case submit_tool_outputs E k of Inl e \<Rightarrow> Raise e | Inr u \<Rightarrow> Again),
            w\<lparr> api_log := api_log w @
                   [RunsRetrieve (thread_id E) rid,
                    SubmitToolOutputs (thread_id E) rid []] \<rparr>)"
  using step_requires_action [OF assms, of w "[]" "cal_log w" rid] by simp

theorem C9_empty_tool_call_list_witness:
  "polls idle_env 0 = Inr \<lparr> status = ''requires_action'', required_action = Some [] \<rparr> \<and>
   poll_step idle_env ''run_1'' 0 world0 =
     (Again,
      \<lparr> cal_log = [],
        api_log = [RunsRetrieve ''thread_1'' ''run_1'',
                   SubmitToolOutputs ''thread_1'' ''run_1'' []] \<rparr>) \<and>
   run_assistant idle_env ''Schedule a team meeting'' world0 =
     Some (Inr ''Run failed'',
           \<lparr> cal_log = [],
             api_log = [MessagesCreate ''thread_1'' ''user'' ''Schedule a team meeting'',
                        RunsCreate ''thread_1'' ''asst_1'',
                        RunsRetrieve ''thread_1'' ''run_1'',
                        SubmitToolOutputs ''thread_1'' ''run_1'' [],
                        RunsRetrieve ''thread_1'' ''run_1''] \<rparr>)"
proof -
  let ?w2 = "\<lparr> cal_log = [],
               api_log = [MessagesCreate ''thread_1'' ''user'' ''Schedule a team meeting'',
                          RunsCreate ''thread_1'' ''asst_1''] \<rparr>"
  let ?w3 = "\<lparr> cal_log = [],
               api_log = [MessagesCreate ''thread_1'' ''user'' ''Schedule a team meeting'',
                          RunsCreate ''thread_1'' ''asst_1'',
                          RunsRetrieve ''thread_1'' ''run_1'',
                          SubmitToolOutputs ''thread_1'' ''run_1'' []] \<rparr>"
  have h1: "polls idle_env 0 =
      Inr \<lparr> status = ''requires_action'', required_action = Some [] \<rparr>"
    by (simp add: idle_env_def idle_polls_def)
  have h2: "status \<lparr> status = ''requires_action'', required_action = Some [] \<rparr> =
      ''requires_action''"
    and h3: "required_action \<lparr> status = ''requires_action'', required_action = Some [] \<rparr> =
      Some []"
    by simp_all
  have ids: "thread_id idle_env = ''thread_1''" "assistant_id idle_env = ''asst_1''"
    "runs_create idle_env = Inr ''run_1''"
    "messages_create idle_env ''Schedule a team meeting'' = Inr ()"
    "submit_tool_outputs idle_env 0 = Inr ()"
    by (simp_all add: idle_env_def)
  have first: "poll_step idle_env ''run_1'' 0 world0 =
     (Again,
      \<lparr> cal_log = [],
        api_log = [RunsRetrieve ''thread_1'' ''run_1'',
                   SubmitToolOutputs ''thread_1'' ''run_1'' []] \<rparr>)"
    using C9_empty_tool_call_list [OF h1 h2 h3, of world0 "''run_1''"]
    by (simp add: ids world0_def)
  have s0: "poll_step idle_env ''run_1'' 0 ?w2 = (Again, ?w3)"
    using C9_empty_tool_call_list [OF h1 h2 h3, of ?w2 "''run_1''"]
    by (simp add: ids)
  have poll1: "polls idle_env (Suc 0) =
      Inr \<lparr> status = ''cancelled'', required_action = None \<rparr>"
    by (simp add: idle_env_def idle_polls_def)
  have s1: "poll_step idle_env ''run_1'' (Suc 0) ?w3 =
      (Return ''Run failed'', polled idle_env ''run_1'' ?w3)"
    using step_failed [OF poll1] by simp
  have "run_assistant idle_env ''Schedule a team meeting'' world0 =
      poll_loop idle_env ''run_1'' 0 ?w2"
    by (simp add: run_assistant_def world0_def ids)
  also have "\<dots> = poll_loop idle_env ''run_1'' (Suc 0) ?w3"
    by (rule poll_loop_again [OF s0])
  also have "\<dots> = Some (Inr ''Run failed'', polled idle_env ''run_1'' ?w3)"
    by (rule poll_loop_return [OF s1])
  finally have "run_assistant idle_env ''Schedule a team meeting'' world0 =
      Some (Inr ''Run failed'', polled idle_env ''run_1'' ?w3)" .
  with h1 first show ?thesis
    by (simp add: polled_def ids)
qed




end
